theory Spec2Isabelle
  imports Main "HOL-Library.Word" "HOL-Library.Sublist"
begin

section \<open>JavaScript strings\<close>

text \<open>
  A JavaScript string is a sequence of UTF-16 code units; \<open>length\<close>, indexing, the regular
  expressions without the \<open>u\<close> flag and \<open>split\<close> all work on code units. \<open>js\<close> writes an
  ASCII literal as such a sequence.
\<close>

type_synonym jsstring = "16 word list"

definition js :: "string \<Rightarrow> jsstring" where
  "js s = map of_char s"

abbreviation NL :: "16 word" where "NL \<equiv> 10"
abbreviation SPACE :: "16 word" where "SPACE \<equiv> 32"
abbreviation HASH :: "16 word" where "HASH \<equiv> 35"
abbreviation STAR :: "16 word" where "STAR \<equiv> 42"
abbreviation MINUS :: "16 word" where "MINUS \<equiv> 45"
abbreviation BACKTICK :: "16 word" where "BACKTICK \<equiv> 96"

text \<open>
  The code units that \<open>.\<close> of a regular expression (no \<open>s\<close> flag) does not match:
  line feed, carriage return, U+2028 and U+2029.
\<close>

definition isLineTerminator :: "16 word \<Rightarrow> bool" where
  "isLineTerminator c = (c = 0x000A \<or> c = 0x000D \<or> c = 0x2028 \<or> c = 0x2029)"

text \<open>The code units that \<open>String.prototype.trim\<close> strips: WhiteSpace and LineTerminator.\<close>

definition isTrimmed :: "16 word \<Rightarrow> bool" where
  "isTrimmed c = (c \<in> set [0x0009, 0x000B, 0x000C, 0x0020, 0x00A0, 0x1680,
       0x2000, 0x2001, 0x2002, 0x2003, 0x2004, 0x2005, 0x2006, 0x2007, 0x2008, 0x2009, 0x200A,
       0x202F, 0x205F, 0x3000, 0xFEFF] \<or> isLineTerminator c)"

definition trim :: "jsstring \<Rightarrow> jsstring" where
  "trim s = rev (dropWhile isTrimmed (rev (dropWhile isTrimmed s)))"

text \<open>
  \<open>s.split("\n")\<close>: the pieces between the line feeds, always at least one piece.
  \<open>split_from\<close> holds the piece read so far.
\<close>

fun split_from :: "jsstring \<Rightarrow> jsstring \<Rightarrow> jsstring list" where
  "split_from piece [] = [piece]"
| "split_from piece (c # cs) =
     (if c = NL then piece # split_from [] cs else split_from (piece @ [c]) cs)"

definition split_nl :: "jsstring \<Rightarrow> jsstring list" where
  "split_nl s = split_from [] s"

text \<open>\<open>parts.join(",")\<close> on ASCII keys.\<close>

fun join_comma :: "string list \<Rightarrow> string" where
  "join_comma [] = []"
| "join_comma [k] = k"
| "join_comma (k # ks) = k @ '','' @ join_comma ks"

text \<open>Truthiness of an optional boolean property: \<open>undefined\<close> and \<open>false\<close> are falsy.\<close>

definition truthy :: "bool option \<Rightarrow> bool" where
  "truthy b = (b = Some True)"

section \<open>Data model of markdown.ts\<close>

record InlineSegment =
  text' :: jsstring
  bold :: "bool option"
  italic :: "bool option"

datatype namedStyle = HEADING_1 | HEADING_2 | HEADING_3 | NORMAL_TEXT

record DocSegment =
  inlines :: "InlineSegment list"
  style :: namedStyle
  bullet :: "bool option"

text \<open>
  The object literal \<open>{ bold: inline.bold, italic: inline.italic }\<close>: its own keys in
  insertion order, each with its value (\<open>None\<close> is \<open>undefined\<close>).
\<close>

type_synonym textStyleObj = "(string \<times> bool option) list"

text \<open>An entry of \<open>styleRanges\<close>; a property the literal does not write is \<open>None\<close>.\<close>

record StyleRange =
  startIndex :: nat
  endIndex :: nat
  paragraphStyle :: "namedStyle option"
  textStyle :: "textStyleObj option"
  rangeBullet :: "bool option"

text \<open>
  The request objects: \<open>insertText\<close> (location index, text), \<open>updateParagraphStyle\<close>
  (range, namedStyleType, fields), \<open>createParagraphBullets\<close> (range, bulletPreset) and
  \<open>updateTextStyle\<close> (range, textStyle, fields).
\<close>

datatype request =
    InsertText nat jsstring
  | UpdateParagraphStyle nat nat namedStyle string
  | CreateParagraphBullets nat nat string
  | UpdateTextStyle nat nat textStyleObj string

fun isInsertText :: "request \<Rightarrow> bool" where
  "isInsertText (InsertText i t) = True"
| "isInsertText r = False"

fun isUpdateParagraphStyle :: "request \<Rightarrow> bool" where
  "isUpdateParagraphStyle (UpdateParagraphStyle s e st f) = True"
| "isUpdateParagraphStyle r = False"

text \<open>The range of a request that has one.\<close>

fun requestRange :: "request \<Rightarrow> (nat \<times> nat) option" where
  "requestRange (InsertText i t) = None"
| "requestRange (UpdateParagraphStyle s e st f) = Some (s, e)"
| "requestRange (CreateParagraphBullets s e p) = Some (s, e)"
| "requestRange (UpdateTextStyle s e ts f) = Some (s, e)"

section \<open>parseInline\<close>

text \<open>The literal \<open>{ text: current }\<close>.\<close>

definition plain :: "jsstring \<Rightarrow> InlineSegment" where
  "plain t = \<lparr>text' = t, bold = None, italic = None\<rparr>"

text \<open>\<open>if (current) result.push({ text: current })\<close>\<close>

definition pushCurrent :: "jsstring \<Rightarrow> InlineSegment list \<Rightarrow> InlineSegment list" where
  "pushCurrent current result = (if current \<noteq> [] then result @ [plain current] else result)"

text \<open>
  The inner loop of the bold branch, on the text from position \<open>i\<close> on: it stops before two
  asterisks or at the end of the text, and returns what it collected and the text from the
  position where it stopped. A last lone character has no successor (\<open>text[i + 1]\<close> is
  \<open>undefined\<close>) and is collected.
\<close>

fun scanBold :: "jsstring \<Rightarrow> jsstring \<times> jsstring" where
  "scanBold (a # b # r) =
     (if a = STAR \<and> b = STAR then ([], a # b # r)
      else (a # fst (scanBold (b # r)), snd (scanBold (b # r))))"
| "scanBold [a] = ([a], [])"
| "scanBold [] = ([], [])"

text \<open>The inner loop of the italic and code branches: up to the next closing character.\<close>

definition scanUntil :: "16 word \<Rightarrow> jsstring \<Rightarrow> jsstring \<times> jsstring" where
  "scanUntil q s = (takeWhile (\<lambda>c. c \<noteq> q) s, dropWhile (\<lambda>c. c \<noteq> q) s)"

text \<open>
  The outer loop, on the text from position \<open>i\<close> on. \<open>i += 2\<close> and \<open>i++\<close> may step past the
  end of the text, which ends the loop: \<open>drop\<close> then leaves nothing.
\<close>

function parseInline_loop ::
  "jsstring \<Rightarrow> jsstring \<Rightarrow> InlineSegment list \<Rightarrow> InlineSegment list" where
  "parseInline_loop [] current result = pushCurrent current result"
| "parseInline_loop (c # r) current result =
     (if c = STAR \<and> take 1 r = [STAR] then
        parseInline_loop (drop 2 (snd (scanBold (drop 1 r)))) []
          (pushCurrent current result @
             [\<lparr>text' = fst (scanBold (drop 1 r)), bold = Some True, italic = None\<rparr>])
      else if c = STAR \<and> take 1 r \<noteq> [STAR] then
        parseInline_loop (drop 1 (snd (scanUntil STAR r))) []
          (pushCurrent current result @
             [\<lparr>text' = fst (scanUntil STAR r), bold = None, italic = Some True\<rparr>])
      else if c = BACKTICK then
        parseInline_loop (drop 1 (snd (scanUntil BACKTICK r))) []
          (pushCurrent current result @
             [\<lparr>text' = fst (scanUntil BACKTICK r), bold = None, italic = Some True\<rparr>])
      else parseInline_loop r (current @ [c]) result)"
  by pat_completeness auto
termination
proof (relation "measure (\<lambda>(s, current, result). length s)")
  show "wf (measure (\<lambda>(s, current, result). length s))" by simp
next
  fix c :: "16 word" and r current :: jsstring and result :: "InlineSegment list"
  have scanBold_length: "length (snd (scanBold s)) \<le> length s" for s :: jsstring
    by (induction s rule: scanBold.induct) auto
  have "length (snd (scanBold (drop 1 r))) \<le> length r"
    using scanBold_length [of "drop 1 r"] by simp
  then show "((drop 2 (snd (scanBold (drop 1 r))), [],
       pushCurrent current result @
         [\<lparr>text' = fst (scanBold (drop 1 r)), bold = Some True, italic = None\<rparr>]),
      c # r, current, result) \<in> measure (\<lambda>(s, current, result). length s)"
    by simp
next
  fix c :: "16 word" and r current :: jsstring and result :: "InlineSegment list"
  have "length (dropWhile (\<lambda>c. c \<noteq> STAR) r) \<le> length r"
    by (rule length_dropWhile_le)
  then show "((drop 1 (snd (scanUntil STAR r)), [],
       pushCurrent current result @
         [\<lparr>text' = fst (scanUntil STAR r), bold = None, italic = Some True\<rparr>]),
      c # r, current, result) \<in> measure (\<lambda>(s, current, result). length s)"
    by (simp add: scanUntil_def)
next
  fix c :: "16 word" and r current :: jsstring and result :: "InlineSegment list"
  have "length (dropWhile (\<lambda>c. c \<noteq> BACKTICK) r) \<le> length r"
    by (rule length_dropWhile_le)
  then show "((drop 1 (snd (scanUntil BACKTICK r)), [],
       pushCurrent current result @
         [\<lparr>text' = fst (scanUntil BACKTICK r), bold = None, italic = Some True\<rparr>]),
      c # r, current, result) \<in> measure (\<lambda>(s, current, result). length s)"
    by (simp add: scanUntil_def)
next
  fix c :: "16 word" and r current :: jsstring and result :: "InlineSegment list"
  show "((r, current @ [c], result), c # r, current, result)
      \<in> measure (\<lambda>(s, current, result). length s)"
    by simp
qed

definition parseInline :: "jsstring \<Rightarrow> InlineSegment list" where
  "parseInline t = parseInline_loop t [] []"

section \<open>markdownToDocRequests: the classification of a line\<close>

text \<open>
  The capture group \<open>(.+)\<close> at the start of \<open>s\<close>, when nothing follows it in the pattern:
  the longest run of code units that are not line terminators, which must not be empty.
\<close>

definition dotPlus :: "jsstring \<Rightarrow> jsstring option" where
  "dotPlus s =
     (if takeWhile (\<lambda>c. \<not> isLineTerminator c) s = [] then None
      else Some (takeWhile (\<lambda>c. \<not> isLineTerminator c) s))"

text \<open>\<open>line.match(/^# (.+)/)\<close>, \<open>/^## (.+)/\<close> and \<open>/^### (.+)/\<close>: group 1 of the match, if any.\<close>

definition matchAfter :: "jsstring \<Rightarrow> jsstring \<Rightarrow> jsstring option" where
  "matchAfter marker line =
     (if take (length marker) line = marker then dotPlus (drop (length marker) line) else None)"

text \<open>\<open>line.match(/^[-*] (.+)/)\<close>\<close>

definition matchBullet :: "jsstring \<Rightarrow> jsstring option" where
  "matchBullet line =
     (case line of
        a # b # r \<Rightarrow> if (a = MINUS \<or> a = STAR) \<and> b = SPACE then dotPlus r else None
      | _ \<Rightarrow> None)"

text \<open>The body of the first loop: the segment pushed for one line.\<close>

definition classifyLine :: "jsstring \<Rightarrow> DocSegment" where
  "classifyLine line =
     (case matchAfter (js ''# '') line of
        Some h1 \<Rightarrow> \<lparr>inlines = [plain h1], style = HEADING_1, bullet = None\<rparr>
      | None \<Rightarrow>
     (case matchAfter (js ''## '') line of
        Some h2 \<Rightarrow> \<lparr>inlines = [plain h2], style = HEADING_2, bullet = None\<rparr>
      | None \<Rightarrow>
     (case matchAfter (js ''### '') line of
        Some h3 \<Rightarrow> \<lparr>inlines = [plain h3], style = HEADING_3, bullet = None\<rparr>
      | None \<Rightarrow>
     (case matchBullet line of
        Some b \<Rightarrow> \<lparr>inlines = parseInline b, style = NORMAL_TEXT, bullet = Some True\<rparr>
      | None \<Rightarrow>
        if trim line = [] then \<lparr>inlines = [plain []], style = NORMAL_TEXT, bullet = None\<rparr>
        else \<lparr>inlines = parseInline line, style = NORMAL_TEXT, bullet = None\<rparr>))))"

text \<open>The first loop: one push for each element of \<open>markdown.split("\n")\<close>.\<close>

definition docSegments :: "jsstring \<Rightarrow> DocSegment list" where
  "docSegments markdown =
     foldl (\<lambda>segments line. segments @ [classifyLine line]) [] (split_nl markdown)"

section \<open>markdownToDocRequests: the text and the style ranges\<close>

text \<open>\<open>segment.inlines.map((i) => i.text).join("") + "\n"\<close>\<close>

definition segText :: "DocSegment \<Rightarrow> jsstring" where
  "segText segment = concat (map text' (inlines segment)) @ [NL]"

text \<open>The loop over the inlines of a segment, from \<open>inlineIndex\<close> on: the ranges it pushes.\<close>

fun inlineRanges :: "nat \<Rightarrow> InlineSegment list \<Rightarrow> StyleRange list" where
  "inlineRanges inlineIndex [] = []"
| "inlineRanges inlineIndex (inline # rest) =
     (if truthy (bold inline) \<or> truthy (italic inline) then
        [\<lparr>startIndex = inlineIndex, endIndex = inlineIndex + length (text' inline),
          paragraphStyle = None,
          textStyle = Some [(''bold'', bold inline), (''italic'', italic inline)],
          rangeBullet = None\<rparr>]
      else [])
     @ inlineRanges (inlineIndex + length (text' inline)) rest"

text \<open>The range pushed for the paragraph of a segment that starts at \<open>segStart\<close>.\<close>

definition paragraphRanges :: "nat \<Rightarrow> DocSegment \<Rightarrow> StyleRange list" where
  "paragraphRanges segStart segment =
     (if style segment \<noteq> NORMAL_TEXT \<or> truthy (bullet segment) then
        [\<lparr>startIndex = segStart, endIndex = segStart + length (segText segment),
          paragraphStyle = (if truthy (bullet segment) then None else Some (style segment)),
          textStyle = None,
          rangeBullet = bullet segment\<rparr>]
      else [])"

record LayoutState =
  fullText :: jsstring
  currentIndex :: nat
  styleRanges :: "StyleRange list"

text \<open>The body of the second loop.\<close>

definition layoutSegment :: "LayoutState \<Rightarrow> DocSegment \<Rightarrow> LayoutState" where
  "layoutSegment st segment =
     \<lparr>fullText = fullText st @ segText segment,
      currentIndex = currentIndex st + length (segText segment),
      styleRanges = styleRanges st @ paragraphRanges (currentIndex st) segment
                      @ inlineRanges (currentIndex st) (inlines segment)\<rparr>"

definition layout :: "DocSegment list \<Rightarrow> LayoutState" where
  "layout segments =
     foldl layoutSegment \<lparr>fullText = [], currentIndex = 1, styleRanges = []\<rparr> segments"

section \<open>markdownToDocRequests: the requests\<close>

text \<open>The body of the third loop: the requests pushed for one range.\<close>

definition styleRequests :: "StyleRange \<Rightarrow> request list" where
  "styleRequests range' =
     (case paragraphStyle range' of
        Some s \<Rightarrow> [UpdateParagraphStyle (startIndex range') (endIndex range') s ''namedStyleType'']
      | None \<Rightarrow> [])
     @ (if truthy (rangeBullet range') then
          [CreateParagraphBullets (startIndex range') (endIndex range')
             ''BULLET_DISC_CIRCLE_SQUARE'']
        else [])
     @ (case textStyle range' of
          Some ts \<Rightarrow>
            [UpdateTextStyle (startIndex range') (endIndex range') ts (join_comma (map fst ts))]
        | None \<Rightarrow> [])"

definition markdownToDocRequests :: "jsstring \<Rightarrow> request list" where
  "markdownToDocRequests markdown =
     (let st = layout (docSegments markdown) in
        (if fullText st \<noteq> [] then [InsertText 1 (fullText st)] else [])
        @ foldl (\<lambda>requests range'. requests @ styleRequests range') [] (styleRanges st))"

section \<open>Notions used to state the properties\<close>

text \<open>The characters that open and close a styled run: the asterisk and the backtick.\<close>

definition isMarker :: "16 word \<Rightarrow> bool" where
  "isMarker c = (c = STAR \<or> c = BACKTICK)"

text \<open>A string with all style markers removed.\<close>

definition stripMarkers :: "jsstring \<Rightarrow> jsstring" where
  "stripMarkers s = filter (\<lambda>c. \<not> isMarker c) s"


text \<open>
  The inline content of a line, as the branches of the first loop take it: group 1 of the
  first pattern that matches, the empty string for a blank line, the whole line otherwise.
\<close>

definition inlineContent :: "jsstring \<Rightarrow> jsstring" where
  "inlineContent line =
     (case matchAfter (js ''# '') line of Some h1 \<Rightarrow> h1 | None \<Rightarrow>
     (case matchAfter (js ''## '') line of Some h2 \<Rightarrow> h2 | None \<Rightarrow>
     (case matchAfter (js ''### '') line of Some h3 \<Rightarrow> h3 | None \<Rightarrow>
     (case matchBullet line of Some b \<Rightarrow> b | None \<Rightarrow>
        if trim line = [] then [] else line))))"

text \<open>The text of the runs of a segment, concatenated in order.\<close>

definition runsText :: "DocSegment \<Rightarrow> jsstring" where
  "runsText segment = concat (map text' (inlines segment))"

text \<open>
  A run of a parsed text together with the markers around it in the text: the opening
  marker, the run, the closing marker. \<open>spell\<close> is the stretch of text the three make.
\<close>

type_synonym piece = "jsstring \<times> InlineSegment \<times> jsstring"

fun pieceRun :: "piece \<Rightarrow> InlineSegment" where
  "pieceRun (opening, run, closing) = run"

fun spell :: "piece \<Rightarrow> jsstring" where
  "spell (opening, run, closing) = opening @ text' run @ closing"

text \<open>A text that holds two asterisks in a row.\<close>

fun hasStarPair :: "jsstring \<Rightarrow> bool" where
  "hasStarPair (a # b # r) = ((a = STAR \<and> b = STAR) \<or> hasStarPair (b # r))"
| "hasStarPair [a] = False"
| "hasStarPair [] = False"

text \<open>
  The markers that belong to a run. A bold run stands between two pairs of asterisks, or
  after one pair when it is not closed, and no pair of asterisks begins inside it. An italic
  run stands between two asterisks or two backticks, or after one when it is not closed, and
  does not hold its own marker; between two asterisks it is not empty. A plain run has no
  marker around it, is not empty and holds neither an asterisk nor a backtick.
\<close>

fun delimited :: "piece \<Rightarrow> bool" where
  "delimited (opening, run, closing) =
     (if bold run = Some True then
        italic run = None \<and> opening = [STAR, STAR]
        \<and> (closing = [STAR, STAR] \<or> closing = [])
        \<and> \<not> hasStarPair (text' run @ take 1 closing)
      else if italic run = Some True then
        bold run = None \<and> (opening = [STAR] \<or> opening = [BACKTICK])
        \<and> (closing = opening \<or> closing = [])
        \<and> set opening \<inter> set (text' run) = {}
        \<and> (text' run \<noteq> [] \<or> opening = [BACKTICK] \<or> closing = [])
      else
        bold run = None \<and> italic run = None \<and> opening = [] \<and> closing = []
        \<and> text' run \<noteq> [] \<and> STAR \<notin> set (text' run) \<and> BACKTICK \<notin> set (text' run))"



text \<open>A range that holds at least one character.\<close>

definition nonEmptyRange :: "StyleRange \<Rightarrow> bool" where
  "nonEmptyRange r = (startIndex r < endIndex r)"

text \<open>The ranges recorded for a markdown string.\<close>

definition recordedRanges :: "jsstring \<Rightarrow> StyleRange list" where
  "recordedRanges markdown = styleRanges (layout (docSegments markdown))"

section \<open>Evaluation on concrete inputs\<close>

lemmas unfold_defs = js_def split_nl_def markdownToDocRequests_def layout_def docSegments_def
  classifyLine_def matchAfter_def matchBullet_def dotPlus_def isLineTerminator_def
  isTrimmed_def trim_def parseInline_def pushCurrent_def plain_def scanUntil_def segText_def
  paragraphRanges_def layoutSegment_def styleRequests_def truthy_def recordedRanges_def
  runsText_def inlineContent_def stripMarkers_def isMarker_def nonEmptyRange_def

section \<open>The loops as maps and concatenations\<close>

lemma length_split_from:
  "length (split_from piece s) = Suc (length (filter (\<lambda>c. c = NL) s))"
  by (induction s arbitrary: piece) auto

lemma length_split_nl: "length (split_nl s) = Suc (length (filter (\<lambda>c. c = NL) s))"
  by (simp add: split_nl_def length_split_from)

lemma split_nl_nonempty: "split_nl s \<noteq> []"
  using length_split_nl [of s] by auto

lemma foldl_push: "foldl (\<lambda>acc x. acc @ [f x]) acc xs = acc @ map f xs"
  by (induction xs arbitrary: acc) auto

lemma docSegments_map: "docSegments md = map classifyLine (split_nl md)"
  by (simp add: docSegments_def foldl_push)

lemma docSegments_nonempty: "docSegments md \<noteq> []"
  by (simp add: docSegments_map split_nl_nonempty)

lemma fullText_foldl:
  "fullText (foldl layoutSegment st segs) = fullText st @ concat (map segText segs)"
  by (induction segs arbitrary: st) (auto simp: layoutSegment_def)

lemma fullText_layout: "fullText (layout segs) = concat (map segText segs)"
  by (simp add: layout_def fullText_foldl)

lemma concat_segText_last:
  assumes "segs \<noteq> []"
  shows "concat (map segText segs) \<noteq> [] \<and> last (concat (map segText segs)) = NL"
proof -
  from assms obtain xs x where segs: "segs = xs @ [x]"
    by (metis rev_exhaust)
  have "concat (map segText segs)
      = (concat (map segText xs) @ concat (map text' (inlines x))) @ [NL]"
    by (simp add: segs segText_def)
  then show ?thesis by (metis snoc_eq_iff_butlast last_snoc)
qed

lemma styleRequests_no_insert: "filter isInsertText (styleRequests r) = []"
  by (simp add: styleRequests_def split: option.splits)

lemma style_requests_no_insert:
  "filter isInsertText (foldl (\<lambda>requests range'. requests @ styleRequests range') [] rs) = []"
  by (induction rs rule: rev_induct) (simp_all add: styleRequests_no_insert)

section \<open>The properties\<close>

text \<open>
  C1 (as the code has it). For the empty input string the first loop produces a single
  empty-paragraph segment and the second loop records no range; the text of that segment is the
  line feed alone, so the request list is the one \<open>insertText\<close> of \<open>"\n"\<close> at index 1.
\<close>

theorem C1_empty_input:
  "docSegments (js '''')
     = [\<lparr>inlines = [\<lparr>text' = [], bold = None, italic = None\<rparr>],
         style = NORMAL_TEXT, bullet = None\<rparr>]
   \<and> recordedRanges (js '''') = []
   \<and> markdownToDocRequests (js '''') = [InsertText 1 (js ''\<newline>'')]"
  by (simp add: unfold_defs)

text \<open>The request list of the empty input string is not empty.\<close>

theorem C1_empty_input_counterexample: "markdownToDocRequests (js '''') \<noteq> []"
  by (simp add: unfold_defs)

text \<open>
  C2 (as the code has it). \<open>markdownToDocRequests("# Title")\<close> is one \<open>insertText\<close> of
  \<open>"Title\n"\<close> followed by one \<open>updateParagraphStyle\<close> of HEADING_1 over the range from 1 to 7:
  the six characters of \<open>"Title\n"\<close> from index 1 on.
\<close>

theorem C2_title:
  "markdownToDocRequests (js ''# Title'')
     = [InsertText 1 (js ''Title\<newline>''),
        UpdateParagraphStyle 1 7 HEADING_1 ''namedStyleType'']"
  by (simp add: unfold_defs)

text \<open>The paragraph-style requests of \<open>"# Title"\<close> are not one request over the range 1 to 8.\<close>

theorem C2_title_counterexample:
  "map requestRange (filter isUpdateParagraphStyle (markdownToDocRequests (js ''# Title'')))
     \<noteq> [Some (1, 8)]"
  by (simp add: unfold_defs)

text \<open>
  C4 (what the code does). The request for a bold run carries \<open>bold = true\<close> and an undefined
  \<open>italic\<close>, and its \<open>fields\<close> names both keys, \<open>"bold,italic"\<close>; likewise for an italic
  run. \<open>Object.keys\<close> lists a key whose value is \<open>undefined\<close>.
\<close>

theorem C4_fields_name_both_flags:
  "markdownToDocRequests (js ''**b**'')
     = [InsertText 1 (js ''b\<newline>''),
        UpdateTextStyle 1 2 [(''bold'', Some True), (''italic'', None)] ''bold,italic'']
   \<and> markdownToDocRequests (js ''*i*'')
     = [InsertText 1 (js ''i\<newline>''),
        UpdateTextStyle 1 2 [(''bold'', None), (''italic'', Some True)] ''bold,italic'']"
  by (simp add: unfold_defs)

text \<open>
  C7. For every input string the first loop produces as many segments as
  \<open>markdown.split("\n")\<close> has elements, that is one more than the input has line feeds: a
  line is neither merged nor dropped, and a final line feed gives a last empty line.
\<close>

theorem C7_one_segment_per_line:
  "length (docSegments md) = length (split_nl md)
   \<and> length (docSegments md) = Suc (length (filter (\<lambda>c. c = NL) md))"
  by (simp add: docSegments_map length_split_nl)

text \<open>
  C9. \<open>markdownToDocRequests("- item one\n- item two")\<close> is the \<open>insertText\<close> of
  \<open>"item one\nitem two\n"\<close> followed by two \<open>createParagraphBullets\<close> requests, over the
  ranges 1 to 10 and 10 to 19, each one line with its line feed, and no
  \<open>updateParagraphStyle\<close> request.
\<close>

theorem C9_two_bullets:
  "markdownToDocRequests (js ''- item one\<newline>- item two'')
     = [InsertText 1 (js ''item one\<newline>item two\<newline>''),
        CreateParagraphBullets 1 10 ''BULLET_DISC_CIRCLE_SQUARE'',
        CreateParagraphBullets 10 19 ''BULLET_DISC_CIRCLE_SQUARE'']"
  by (simp add: unfold_defs)

text \<open>
  C10. For every input string, the empty one too, the request list starts with an
  \<open>insertText\<close> at index 1 and holds no other \<open>insertText\<close>; its text is the texts of the
  segments, each with its line feed, so it is not empty and ends with a line feed.
\<close>

theorem C10_single_leading_insertText:
  "(\<exists>rest. markdownToDocRequests md
        = InsertText 1 (concat (map segText (docSegments md))) # rest
      \<and> filter isInsertText rest = [])
   \<and> length (filter isInsertText (markdownToDocRequests md)) = 1
   \<and> concat (map segText (docSegments md)) \<noteq> []
   \<and> last (concat (map segText (docSegments md))) = NL"
proof -
  let ?t = "concat (map segText (docSegments md))"
  let ?rest = "foldl (\<lambda>requests range'. requests @ styleRequests range') []
                 (styleRanges (layout (docSegments md)))"
  have t: "?t \<noteq> [] \<and> last ?t = NL"
    by (rule concat_segText_last) (rule docSegments_nonempty)
  have ops: "markdownToDocRequests md = InsertText 1 ?t # ?rest"
    using t by (simp add: markdownToDocRequests_def Let_def fullText_layout)
  have rest: "filter isInsertText ?rest = []"
    by (rule style_requests_no_insert)
  have "length (filter isInsertText (markdownToDocRequests md)) = 1"
    by (simp add: ops rest)
  with t ops rest show ?thesis by blast
qed

section \<open>The recorded ranges\<close>

lemma inlineRanges_bounds:
  "r \<in> set (inlineRanges i inl) \<Longrightarrow> startIndex r \<le> endIndex r \<and> textStyle r \<noteq> None"
  by (induction i inl rule: inlineRanges.induct) (auto split: if_splits)

lemma paragraphRanges_bounds:
  "r \<in> set (paragraphRanges i seg) \<Longrightarrow> startIndex r < endIndex r"
  by (auto simp: paragraphRanges_def segText_def split: if_splits)

lemma styleRanges_foldl:
  "r \<in> set (styleRanges (foldl layoutSegment st segs)) \<Longrightarrow>
   r \<in> set (styleRanges st)
   \<or> (\<exists>i seg. r \<in> set (paragraphRanges i seg))
   \<or> (\<exists>i inl. r \<in> set (inlineRanges i inl))"
proof (induction segs arbitrary: st)
  case Nil
  then show ?case by simp
next
  case (Cons seg segs)
  from Cons.IH [OF Cons.prems [simplified]]
  show ?case by (auto simp: layoutSegment_def)
qed

text \<open>
  The part that holds for every input: a recorded range is in order, and a paragraph or
  bullet range (one without a text style) is never empty.
\<close>

lemma recordedRanges_ordered:
  "\<forall>r \<in> set (recordedRanges md).
     startIndex r \<le> endIndex r \<and> (textStyle r = None \<longrightarrow> nonEmptyRange r)"
proof
  fix r
  assume "r \<in> set (recordedRanges md)"
  then have "(\<exists>i seg. r \<in> set (paragraphRanges i seg))
      \<or> (\<exists>i inl. r \<in> set (inlineRanges i inl))"
    unfolding recordedRanges_def layout_def by (auto dest: styleRanges_foldl)
  then show "startIndex r \<le> endIndex r \<and> (textStyle r = None \<longrightarrow> nonEmptyRange r)"
  proof (elim disjE exE)
    fix i seg
    assume "r \<in> set (paragraphRanges i seg)"
    then show ?thesis
      using paragraphRanges_bounds [of r i seg] by (simp add: nonEmptyRange_def)
  next
    fix i inl
    assume "r \<in> set (inlineRanges i inl)"
    then show ?thesis using inlineRanges_bounds [of r i inl] by auto
  qed
qed

text \<open>
  C3 (what the code does). The parser pushes a styled run also when nothing lies between
  the markers, and the inline loop records a range for every run with a flag set, without a
  look at its text. So \<open>"****"\<close> records the bold range from 1 to 1, a line of three
  backticks records two italic ranges from 1 to 1, and \<open>"See note*"\<close> ends in an
  \<open>updateTextStyle\<close> request over the range from 9 to 9: ranges with \<open>start = end\<close>.
\<close>

theorem C3_empty_ranges_recorded:
  "recordedRanges (js ''****'')
     = [\<lparr>startIndex = 1, endIndex = 1, paragraphStyle = None,
          textStyle = Some [(''bold'', Some True), (''italic'', None)], rangeBullet = None\<rparr>]
   \<and> \<not> list_all nonEmptyRange (recordedRanges (js ''****''))
   \<and> recordedRanges (js ''```'')
     = [\<lparr>startIndex = 1, endIndex = 1, paragraphStyle = None,
          textStyle = Some [(''bold'', None), (''italic'', Some True)], rangeBullet = None\<rparr>,
        \<lparr>startIndex = 1, endIndex = 1, paragraphStyle = None,
          textStyle = Some [(''bold'', None), (''italic'', Some True)], rangeBullet = None\<rparr>]
   \<and> markdownToDocRequests (js ''See note*'')
     = [InsertText 1 (js ''See note\<newline>''),
        UpdateTextStyle 9 9 [(''bold'', None), (''italic'', Some True)] ''bold,italic'']"
  by (simp add: unfold_defs)

section \<open>The text kept by parseInline\<close>













section \<open>Blank lines and heading lines\<close>

lemma trim_Nil_iff: "trim s = [] \<longleftrightarrow> (\<forall>c \<in> set s. isTrimmed c)"
proof
  assume "trim s = []"
  then have "dropWhile isTrimmed (rev (dropWhile isTrimmed s)) = []"
    by (simp add: trim_def)
  then have "\<forall>c \<in> set (dropWhile isTrimmed s). isTrimmed c" by simp
  then have "dropWhile isTrimmed s = []"
    using hd_dropWhile [of isTrimmed s] by (cases "dropWhile isTrimmed s") auto
  then show "\<forall>c \<in> set s. isTrimmed c" by simp
next
  assume "\<forall>c \<in> set s. isTrimmed c"
  then have d: "dropWhile isTrimmed s = []" by simp
  show "trim s = []" unfolding trim_def d by simp
qed

lemma not_trimmed_marks:
  "\<not> isTrimmed HASH" "\<not> isTrimmed STAR" "\<not> isTrimmed MINUS"
  by (simp_all add: isTrimmed_def isLineTerminator_def)


text \<open>
  C5 (as the code has it). A line that begins with \<open>"# "\<close> is a Heading1 segment exactly
  when a character that is not a line terminator follows the marker (the pattern asks for at
  least one); its inline content is then one plain run with the remainder up to the first line
  terminator, the whole remainder when it holds none. Otherwise, as when the remainder is
  empty, the line is a plain paragraph whose runs are parsed from the whole line.
\<close>

theorem C5_heading1:
  "classifyLine (js ''# '' @ rest) =
     (if rest \<noteq> [] \<and> \<not> isLineTerminator (hd rest) then
        \<lparr>inlines = [\<lparr>text' = takeWhile (\<lambda>c. \<not> isLineTerminator c) rest,
                      bold = None, italic = None\<rparr>],
         style = HEADING_1, bullet = None\<rparr>
      else \<lparr>inlines = parseInline (js ''# '' @ rest), style = NORMAL_TEXT, bullet = None\<rparr>)
   \<and> (rest \<noteq> [] \<and> list_all (\<lambda>c. \<not> isLineTerminator c) rest \<longrightarrow>
        classifyLine (js ''# '' @ rest) =
          \<lparr>inlines = [\<lparr>text' = rest, bold = None, italic = None\<rparr>],
           style = HEADING_1, bullet = None\<rparr>)"
proof -
  let ?line = "js ''# '' @ rest"
  have line: "?line = HASH # SPACE # rest" by (simp add: js_def)
  have h1: "matchAfter (js ''# '') ?line = dotPlus rest"
    by (simp add: matchAfter_def js_def)
  have h2: "matchAfter (js ''## '') ?line = None"
    by (simp add: matchAfter_def js_def)
  have h3: "matchAfter (js ''### '') ?line = None"
    by (simp add: matchAfter_def js_def)
  have b: "matchBullet ?line = None"
    by (simp add: matchBullet_def js_def)
  have t: "trim ?line \<noteq> []"
    using not_trimmed_marks(1) by (auto simp: trim_Nil_iff line)
  have first: "classifyLine ?line =
     (if rest \<noteq> [] \<and> \<not> isLineTerminator (hd rest) then
        \<lparr>inlines = [\<lparr>text' = takeWhile (\<lambda>c. \<not> isLineTerminator c) rest,
                      bold = None, italic = None\<rparr>],
         style = HEADING_1, bullet = None\<rparr>
      else \<lparr>inlines = parseInline ?line, style = NORMAL_TEXT, bullet = None\<rparr>)"
    using t by (simp add: classifyLine_def h1 h2 h3 b dotPlus_def plain_def takeWhile_eq_Nil_iff)
  have "takeWhile (\<lambda>c. \<not> isLineTerminator c) rest = rest \<and> \<not> isLineTerminator (hd rest)"
    if "rest \<noteq> []" "list_all (\<lambda>c. \<not> isLineTerminator c) rest"
    using that by (cases rest) (auto simp: list_all_iff)
  with first show ?thesis by simp
qed

text \<open>At \<open>"# Title"\<close> the remainder holds no line terminator and is the text of the run.\<close>

theorem C5_heading1_witness:
  "js ''Title'' \<noteq> [] \<and> list_all (\<lambda>c. \<not> isLineTerminator c) (js ''Title'')
   \<and> classifyLine (js ''# Title'')
     = \<lparr>inlines = [\<lparr>text' = js ''Title'', bold = None, italic = None\<rparr>],
        style = HEADING_1, bullet = None\<rparr>"
proof -
  have h: "js ''Title'' \<noteq> [] \<and> list_all (\<lambda>c. \<not> isLineTerminator c) (js ''Title'')"
    by (simp add: js_def isLineTerminator_def)
  have l: "js ''# '' @ js ''Title'' = js ''# Title''" by (simp add: js_def)
  show ?thesis using h C5_heading1 [of "js ''Title''"] unfolding l by blast
qed

text \<open>
  The line \<open>"# "\<close> has an empty remainder: it is not a Heading1 segment but a plain
  paragraph with the run \<open>"# "\<close>.
\<close>

theorem C5_empty_remainder_counterexample:
  "classifyLine (js ''# '')
     = \<lparr>inlines = [\<lparr>text' = js ''# '', bold = None, italic = None\<rparr>],
        style = NORMAL_TEXT, bullet = None\<rparr>
   \<and> style (classifyLine (js ''# '')) \<noteq> HEADING_1"
  by (simp add: unfold_defs)

text \<open>A carriage return ends the captured remainder: \<open>"# a\rb"\<close> is the heading \<open>"a"\<close>.\<close>

lemma heading_stops_at_carriage_return:
  "classifyLine (js ''# a'' @ [0x000D] @ js ''b'')
     = \<lparr>inlines = [\<lparr>text' = js ''a'', bold = None, italic = None\<rparr>],
        style = HEADING_1, bullet = None\<rparr>"
  by (simp add: unfold_defs)

section \<open>The runs and the markers around them\<close>













text \<open>
  A backtick inside an italic run is kept: the runs of \<open>"*a`b* c"\<close> hold \<open>"a`b c"\<close>, and
  the pieces of the line are the italic run between two asterisks and the plain run.
\<close>

lemma marker_inside_run_kept:
  "runsText (classifyLine (js ''*a`b* c'')) = js ''a`b c''
   \<and> map pieceRun
        [([STAR], \<lparr>text' = js ''a`b'', bold = None, italic = Some True\<rparr>, [STAR]),
         ([], \<lparr>text' = js '' c'', bold = None, italic = None\<rparr>, [])]
       = inlines (classifyLine (js ''*a`b* c''))
   \<and> concat (map spell
        [([STAR], \<lparr>text' = js ''a`b'', bold = None, italic = Some True\<rparr>, [STAR]),
         ([], \<lparr>text' = js '' c'', bold = None, italic = None\<rparr>, [])])
       = js ''*a`b* c''
   \<and> list_all delimited
        [([STAR], \<lparr>text' = js ''a`b'', bold = None, italic = Some True\<rparr>, [STAR]),
         ([], \<lparr>text' = js '' c'', bold = None, italic = None\<rparr>, [])]"
  by (simp add: unfold_defs)

section \<open>Unterminated markers\<close>








text \<open>
  The same on whole lines: an unterminated marker after a closed run takes the rest of the
  line.
\<close>

lemma unterminated_after_closed_run:
  "parseInline (js ''*a* *b c'')
     = [\<lparr>text' = js ''a'', bold = None, italic = Some True\<rparr>,
        \<lparr>text' = js '' '', bold = None, italic = None\<rparr>,
        \<lparr>text' = js ''b c'', bold = None, italic = Some True\<rparr>]
   \<and> parseInline (js ''**a** *b'')
     = [\<lparr>text' = js ''a'', bold = Some True, italic = None\<rparr>,
        \<lparr>text' = js '' '', bold = None, italic = None\<rparr>,
        \<lparr>text' = js ''b'', bold = None, italic = Some True\<rparr>]"
  by (simp add: unfold_defs)

end
